theory Spec2Isabelle
  imports Main "HOL-Library.AList"
begin

section \<open>Python values\<close>

text \<open>
  A Python \<open>str\<close> is a sequence of Unicode code points; \<open>len\<close> counts code points and
  \<open>strip\<close> looks at single code points, so a string is modelled as a list of code points.
  \<open>lit\<close> turns an ASCII literal of the source into that representation.
\<close>

type_synonym ustr = "nat list"

definition lit :: "string \<Rightarrow> ustr" where
  "lit s = map of_char s"

text \<open>
  The result of an awaited call into a library or into the browser engine: it returns a
  value or raises an exception; \<open>Raises\<close> carries \<open>str(e)\<close>.
\<close>

datatype 'a outcome = Returns 'a | Raises ustr

fun is_ok :: "'a outcome \<Rightarrow> bool" where
  "is_ok (Returns _) = True"
| "is_ok (Raises _) = False"

text \<open>The values \<open>json.loads\<close> produces. Numbers are opaque payload here.\<close>

datatype json =
    JNull
  | JBool bool
  | JNum int
  | JStr ustr
  | JArr "json list"
  | JObj "(ustr \<times> json) list"

text \<open>
  Python's slice bounds: a negative bound counts from the end, and every bound is clipped
  to the sequence. \<open>slice_to xs k\<close> is \<open>xs[:k]\<close>, \<open>slice xs i j\<close> is \<open>xs[i:j]\<close>.
\<close>

definition slice_bound :: "nat \<Rightarrow> int \<Rightarrow> nat" where
  "slice_bound n k = (if k < 0 then nat (int n + k) else min (nat k) n)"

definition slice :: "'a list \<Rightarrow> int \<Rightarrow> int \<Rightarrow> 'a list" where
  "slice xs i j = drop (slice_bound (length xs) i) (take (slice_bound (length xs) j) xs)"

definition slice_to :: "'a list \<Rightarrow> int \<Rightarrow> 'a list" where
  "slice_to xs k = take (slice_bound (length xs) k) xs"

text \<open>\<open>sep.join(xs)\<close>.\<close>

fun join :: "ustr \<Rightarrow> ustr list \<Rightarrow> ustr" where
  "join sep [] = []"
| "join sep [x] = x"
| "join sep (x # y # ys) = x @ sep @ join sep (y # ys)"

text \<open>
  \<open>str.strip()\<close> removes leading and trailing white space; these are the code points for
  which CPython's \<open>Py_UNICODE_ISSPACE\<close> holds.
\<close>

definition isspace :: "nat \<Rightarrow> bool" where
  "isspace c \<longleftrightarrow>
     (9 \<le> c \<and> c \<le> 13) \<or> (28 \<le> c \<and> c \<le> 32) \<or> c = 133 \<or> c = 160 \<or> c = 5760 \<or>
     (8192 \<le> c \<and> c \<le> 8202) \<or> c = 8232 \<or> c = 8233 \<or> c = 8239 \<or> c = 8287 \<or> c = 12288"

definition strip :: "ustr \<Rightarrow> ustr" where
  "strip s = rev (dropWhile isspace (rev (dropWhile isspace s)))"

text \<open>\<open>s.startswith(c)\<close>, \<open>s.find(c)\<close> and \<open>s.rfind(c)\<close> for a one-character \<open>c\<close>
  (\<open>- 1\<close> when \<open>c\<close> does not occur).\<close>

fun startswith :: "ustr \<Rightarrow> nat \<Rightarrow> bool" where
  "startswith [] c = False"
| "startswith (x # xs) c = (x = c)"

fun str_find :: "ustr \<Rightarrow> nat \<Rightarrow> int" where
  "str_find [] c = - 1"
| "str_find (x # xs) c =
     (if x = c then 0 else (let r = str_find xs c in if r < 0 then - 1 else r + 1))"

definition str_rfind :: "ustr \<Rightarrow> nat \<Rightarrow> int" where
  "str_rfind s c = (let r = str_find (rev s) c in if r < 0 then - 1 else int (length s) - 1 - r)"

text \<open>\<open>str(n)\<close> for an integer, as the f-string of the prompt formats \<open>limit\<close>.\<close>

fun digits :: "nat \<Rightarrow> ustr" where
  "digits n = (if n < 10 then [48 + n] else digits (n div 10) @ [48 + n mod 10])"

definition str_int :: "int \<Rightarrow> ustr" where
  "str_int i = (if i < 0 then 45 # digits (nat (- i)) else digits (nat i))"


section \<open>search.py: the suggestions endpoint\<close>

text \<open>
  What the endpoint calls outside this repository:
  \<^item> \<open>importable\<close>: whether \<open>from emergentintegrations.llm.chat import ...\<close> succeeds;
  \<^item> \<open>chat\<close>: the suggestion service, from the user message to \<open>response.message\<close>
    (the configuration and the system message are constants of the source);
  \<^item> \<open>json_loads\<close>: \<open>json.loads\<close>;
  \<^item> \<open>coerce_str\<close>: what the validation of a \<open>List[str]\<close> field does with an element
    that is not a string (\<open>None\<close>: it rejects the element). A string is kept as it is.
\<close>

record llm_env =
  importable :: bool
  chat :: "ustr \<Rightarrow> ustr outcome"
  json_loads :: "ustr \<Rightarrow> json outcome"
  coerce_str :: "json \<Rightarrow> ustr option"

record suggestions_response =
  suggestions :: "ustr list"
  query :: ustr

definition prompt :: "ustr \<Rightarrow> int \<Rightarrow> ustr" where
  "prompt q limit =
     lit ''Provide '' @ str_int limit @ lit '' search suggestions for: '' @ [34] @ q @ [34]"

text \<open>\<open>suggestions[:limit]\<close> on whatever \<open>json.loads\<close> returned.\<close>

fun json_slice_to :: "json \<Rightarrow> int \<Rightarrow> json outcome" where
  "json_slice_to (JArr xs) k = Returns (JArr (slice_to xs k))"
| "json_slice_to (JStr s) k = Returns (JStr (slice_to s k))"
| "json_slice_to _ k = Raises (lit ''TypeError'')"

text \<open>
  \<open>get_ai_suggestions\<close>: the result, and the user messages sent to the service.
\<close>

definition parse_content :: "llm_env \<Rightarrow> ustr \<Rightarrow> ustr \<Rightarrow> json outcome" where
  "parse_content env q content =
     (if startswith content 91 then json_loads env content
      else
        (let start = str_find content 91; end = str_rfind content 93 + 1 in
         if start \<ge> 0 \<and> end > start then json_loads env (slice content start end)
         else Returns (JArr [JStr q])))"

definition get_ai_suggestions :: "llm_env \<Rightarrow> ustr \<Rightarrow> int \<Rightarrow> json outcome \<times> ustr list" where
  "get_ai_suggestions env q limit =
     (if \<not> importable env then (Raises (lit ''ImportError''), [])
      else
        (case chat env (prompt q limit) of
           Raises e \<Rightarrow> (Raises e, [prompt q limit])
         | Returns message \<Rightarrow>
             (case parse_content env q (strip message) of
                Raises e \<Rightarrow> (Raises e, [prompt q limit])
              | Returns js \<Rightarrow> (json_slice_to js limit, [prompt q limit]))))"

text \<open>The validation of \<open>SuggestionsResponse(suggestions=..., query=q)\<close>.\<close>

fun validate_elem :: "llm_env \<Rightarrow> json \<Rightarrow> ustr option" where
  "validate_elem env (JStr s) = Some s"
| "validate_elem env j = coerce_str env j"

fun validate_elems :: "llm_env \<Rightarrow> json list \<Rightarrow> ustr list option" where
  "validate_elems env [] = Some []"
| "validate_elems env (j # js) =
     (case validate_elem env j of
        None \<Rightarrow> None
      | Some s \<Rightarrow> (case validate_elems env js of None \<Rightarrow> None | Some ss \<Rightarrow> Some (s # ss)))"

fun validate_list :: "llm_env \<Rightarrow> json \<Rightarrow> ustr list option" where
  "validate_list env (JArr js) = validate_elems env js"
| "validate_list env _ = None"

definition fallback :: "ustr \<Rightarrow> ustr list" where
  "fallback q =
     [q @ lit '' tutorial'', q @ lit '' example'', q @ lit '' documentation'',
      lit ''how to '' @ q, q @ lit '' guide'']"

definition get_search_suggestions ::
  "llm_env \<Rightarrow> ustr \<Rightarrow> int \<Rightarrow> suggestions_response \<times> ustr list" where
  "get_search_suggestions env q limit =
     (if q = [] \<or> length (strip q) < 2 then (\<lparr>suggestions = [], query = q\<rparr>, [])
      else
        (case get_ai_suggestions env q limit of
           (Raises e, sent) \<Rightarrow> (\<lparr>suggestions = slice_to (fallback q) limit, query = q\<rparr>, sent)
         | (Returns js, sent) \<Rightarrow>
             (case validate_list env js of
                None \<Rightarrow> (\<lparr>suggestions = slice_to (fallback q) limit, query = q\<rparr>, sent)
              | Some ss \<Rightarrow> (\<lparr>suggestions = ss, query = q\<rparr>, sent))))"


section \<open>browser.py: the session manager\<close>

text \<open>
  The engine (Playwright) hands out objects: the driver, the browser, contexts and pages.
  They are modelled as handles (numbers) chosen by the engine. \<open>calls\<close> lists the engine
  calls that have completed, in order, each with whether it returned normally.
\<close>

datatype call =
    PlaywrightStart
  | ChromiumLaunch nat
  | NewContext nat
  | NewPage nat
  | ContextClose nat
  | BrowserClose nat
  | PlaywrightStop nat
  | Goto nat ustr
  | Title nat
  | GoBack nat
  | GoForward nat
  | Reload nat
  | Screenshot nat nat
  | MouseClick nat int int ustr
  | MouseWheel nat int int
  | KeyboardType nat ustr
  | KeyboardPress nat ustr

text \<open>
  The session dict of \<open>create_session\<close>. The key \<open>'context'\<close> is the field \<open>ctx\<close>. The
  value of the key \<open>'history'\<close> is a reference to a list object: \<open>append\<close> changes that
  object in place, for everyone who holds the reference, while the literal \<open>[]\<close> and a
  slice \<open>xs[:k]\<close> make a new object.
\<close>

record session =
  ctx :: nat
  page :: nat
  created_at :: nat
  history :: nat
  history_index :: int

text \<open>
  \<open>BrowserSessionManager\<close>. \<open>self.sessions\<close> is a dict in insertion order whose values
  are references to session dicts; the dicts themselves live in \<open>heap\<close>, since a
  WebSocket handler keeps the reference it looked up and mutates the dict through it.
  \<open>next_ref\<close> is the next unused reference. The list objects live in \<open>lists\<close>, with
  \<open>next_list\<close> the next unused one. The attribute \<open>_lock\<close> is created by \<open>__init__\<close>
  and never used by any method, so it carries no state.
\<close>

record manager =
  sessions :: "(ustr \<times> nat) list"
  playwright :: "nat option"
  browser :: "nat option"

record world = manager +
  heap :: "nat \<Rightarrow> session"
  next_ref :: nat
  lists :: "nat \<Rightarrow> ustr list"
  next_list :: nat
  calls :: "(call \<times> bool) list"

definition blank_session :: session where
  "blank_session = \<lparr>ctx = 0, page = 0, created_at = 0, history = 0, history_index = - 1\<rparr>"

definition empty_world :: world where
  "empty_world =
     \<lparr>sessions = [], playwright = None, browser = None,
      heap = (\<lambda>_. blank_session), next_ref = 0,
      lists = (\<lambda>_. []), next_list = 0, calls = []\<rparr>"

text \<open>The list that the key \<open>'history'\<close> of the session dict \<open>a\<close> refers to.\<close>

definition history_list :: "world \<Rightarrow> nat \<Rightarrow> ustr list" where
  "history_list w a = lists w (history (heap w a))"

definition record_call :: "call \<Rightarrow> 'a outcome \<Rightarrow> world \<Rightarrow> world" where
  "record_call c r w = w\<lparr>calls := calls w @ [(c, is_ok r)]\<rparr>"

definition put :: "world \<Rightarrow> nat \<Rightarrow> session \<Rightarrow> world" where
  "put w a s = w\<lparr>heap := (heap w)(a := s)\<rparr>"

definition initialize :: "world \<Rightarrow> nat outcome \<Rightarrow> nat outcome \<Rightarrow> world \<times> unit outcome" where
  "initialize w start_r launch_r =
     (case playwright w of
        Some _ \<Rightarrow> (w, Returns ())
      | None \<Rightarrow>
          (let w1 = record_call PlaywrightStart start_r w in
           case start_r of
             Raises e \<Rightarrow> (w1, Raises e)
           | Returns p \<Rightarrow>
               (let w2 = record_call (ChromiumLaunch p) launch_r (w1\<lparr>playwright := Some p\<rparr>) in
                case launch_r of
                  Raises e \<Rightarrow> (w2, Raises e)
                | Returns b \<Rightarrow> (w2\<lparr>browser := Some b\<rparr>, Returns ()))))"

text \<open>
  \<open>create_session\<close>: \<open>uuid\<close> is \<open>str(uuid.uuid4())\<close>, \<open>now\<close> is \<open>datetime.utcnow()\<close>.
  When \<open>self.browser\<close> is still \<open>None\<close>, \<open>self.browser.new_context\<close> raises AttributeError.
\<close>

definition create_session ::
  "world \<Rightarrow> nat outcome \<Rightarrow> nat outcome \<Rightarrow> ustr \<Rightarrow> nat outcome \<Rightarrow> nat outcome \<Rightarrow> nat
     \<Rightarrow> world \<times> ustr outcome" where
  "create_session w start_r launch_r uuid context_r page_r now =
     (case initialize w start_r launch_r of
        (w1, Raises e) \<Rightarrow> (w1, Raises e)
      | (w1, Returns _) \<Rightarrow>
          (case browser w1 of
             None \<Rightarrow> (w1, Raises (lit ''AttributeError''))
           | Some b \<Rightarrow>
               (let w2 = record_call (NewContext b) context_r w1 in
                case context_r of
                  Raises e \<Rightarrow> (w2, Raises e)
                | Returns c \<Rightarrow>
                    (let w3 = record_call (NewPage c) page_r w2 in
                     case page_r of
                       Raises e \<Rightarrow> (w3, Raises e)
                     | Returns p \<Rightarrow>
                         (let a = next_ref w3;
                              l = next_list w3;
                              s = \<lparr>ctx = c, page = p, created_at = now,
                                   history = l, history_index = - 1\<rparr>
                          in (w3\<lparr>sessions := AList.update uuid a (sessions w3),
                                 heap := (heap w3)(a := s), next_ref := Suc a,
                                 lists := (lists w3)(l := []), next_list := Suc l\<rparr>,
                              Returns uuid))))))"

definition get_session :: "world \<Rightarrow> ustr \<Rightarrow> nat option" where
  "get_session w sid = map_of (sessions w) sid"

text \<open>
  \<open>close_session\<close>: \<open>close_r\<close> is the outcome of \<open>await session['context'].close()\<close>.
\<close>

definition close_session :: "world \<Rightarrow> ustr \<Rightarrow> unit outcome \<Rightarrow> world \<times> unit outcome" where
  "close_session w sid close_r =
     (case map_of (sessions w) sid of
        None \<Rightarrow> (w, Returns ())
      | Some a \<Rightarrow>
          (let w1 = record_call (ContextClose (ctx (heap w a))) close_r w in
           case close_r of
             Raises e \<Rightarrow> (w1, Raises e)
           | Returns _ \<Rightarrow> (w1\<lparr>sessions := AList.delete sid (sessions w1)\<rparr>, Returns ())))"

text \<open>
  \<open>cleanup\<close>: the loop runs over a copy of the keys; \<open>close_r\<close> gives, for each session id,
  the outcome of closing its context.
\<close>

fun cleanup_loop :: "world \<Rightarrow> (ustr \<Rightarrow> unit outcome) \<Rightarrow> ustr list \<Rightarrow> world \<times> unit outcome" where
  "cleanup_loop w close_r [] = (w, Returns ())"
| "cleanup_loop w close_r (k # ks) =
     (case close_session w k (close_r k) of
        (w1, Raises e) \<Rightarrow> (w1, Raises e)
      | (w1, Returns _) \<Rightarrow> cleanup_loop w1 close_r ks)"

text \<open>
  Lines 73 to 76 of \<open>cleanup\<close>: the browser is closed and the driver stopped, each when
  its handle is set. No method ever sets a handle back to \<open>None\<close>.
\<close>

definition engine_shutdown ::
  "world \<Rightarrow> unit outcome \<Rightarrow> unit outcome \<Rightarrow> world \<times> unit outcome" where
  "engine_shutdown w browser_close_r stop_r =
     (case (case browser w of
              None \<Rightarrow> (w, Returns ())
            | Some b \<Rightarrow> (record_call (BrowserClose b) browser_close_r w, browser_close_r)) of
        (w2, Raises e) \<Rightarrow> (w2, Raises e)
      | (w2, Returns _) \<Rightarrow>
          (case playwright w2 of
             None \<Rightarrow> (w2, Returns ())
           | Some p \<Rightarrow> (record_call (PlaywrightStop p) stop_r w2, stop_r)))"

definition cleanup ::
  "world \<Rightarrow> (ustr \<Rightarrow> unit outcome) \<Rightarrow> unit outcome \<Rightarrow> unit outcome \<Rightarrow> world \<times> unit outcome" where
  "cleanup w close_r browser_close_r stop_r =
     (case cleanup_loop w close_r (map fst (sessions w)) of
        (w1, Raises e) \<Rightarrow> (w1, Raises e)
      | (w1, Returns _) \<Rightarrow> engine_shutdown w1 browser_close_r stop_r)"


section \<open>browser.py: the REST endpoints\<close>

text \<open>
  An endpoint answers with a body, raises \<open>HTTPException(status_code, detail)\<close>, or lets
  an exception escape (\<open>Unhandled\<close>, carrying \<open>str(e)\<close>).
\<close>

datatype http_error = HTTPException nat ustr | Unhandled ustr

record session_status_response =
  session_id :: ustr
  current_url :: ustr
  title :: ustr
  can_go_back :: bool
  can_go_forward :: bool

datatype response =
    Status session_status_response
  | Navigated ustr ustr
  | Success ustr
  | NoHistory
  | NoForwardHistory
  | Refreshed ustr
  | Pressed

definition not_found :: http_error where
  "not_found = HTTPException 404 (lit ''Session not found'')"

text \<open>
  In every endpoint \<open>page_url\<close> is the value of \<open>page.url\<close> where the source reads it, and
  the \<open>outcome\<close> arguments are the outcomes of the awaited page calls, in source order.
\<close>

text \<open>
  \<open>get_session_status\<close> copies \<open>page\<close>, the reference \<open>history\<close> and the number
  \<open>history_index\<close> into local variables and reads \<open>page.url\<close>; then it awaits
  \<open>page.title()\<close>; the two comparisons, and \<open>len(history)\<close> with them, are evaluated when
  it is resumed. \<open>get_session_status_begin\<close> is lines 144 to 150 and gives the local
  variables (\<open>None\<close>: the 404 answer); \<open>get_session_status_resume\<close> is what follows the
  await, in the state the handler is resumed in. \<open>get_session_status\<close> is the call during
  whose await nothing else runs.
\<close>

definition get_session_status_begin :: "world \<Rightarrow> ustr \<Rightarrow> (nat \<times> nat \<times> int) option" where
  "get_session_status_begin w sid =
     (case get_session w sid of
        None \<Rightarrow> None
      | Some a \<Rightarrow> (let s = heap w a in Some (page s, history s, history_index s)))"

definition get_session_status_resume ::
  "world \<Rightarrow> ustr \<Rightarrow> nat \<times> nat \<times> int \<Rightarrow> ustr \<Rightarrow> ustr outcome
     \<Rightarrow> world \<times> (http_error + response)" where
  "get_session_status_resume w sid vars page_url title_r =
     (case vars of
        (p, h, i) \<Rightarrow>
          (let w1 = record_call (Title p) title_r w in
           case title_r of
             Raises e \<Rightarrow> (w1, Inl (Unhandled e))
           | Returns t \<Rightarrow>
               (w1, Inr (Status \<lparr>session_id = sid, current_url = page_url, title = t,
                          can_go_back = (i > 0),
                          can_go_forward = (i < int (length (lists w h)) - 1)\<rparr>))))"

definition get_session_status ::
  "world \<Rightarrow> ustr \<Rightarrow> ustr \<Rightarrow> ustr outcome \<Rightarrow> world \<times> (http_error + response)" where
  "get_session_status w sid page_url title_r =
     (case get_session_status_begin w sid of
        None \<Rightarrow> (w, Inl not_found)
      | Some vars \<Rightarrow> get_session_status_resume w sid vars page_url title_r)"

text \<open>
  \<open>navigate\<close>: line 173 binds the key \<open>'history'\<close> to a new list, the slice; line 174
  appends to that new list; line 175 sets the index.
\<close>

definition navigate ::
  "world \<Rightarrow> ustr \<Rightarrow> ustr \<Rightarrow> unit outcome \<Rightarrow> ustr \<Rightarrow> ustr outcome
     \<Rightarrow> world \<times> (http_error + response)" where
  "navigate w sid url goto_r page_url title_r =
     (case get_session w sid of
        None \<Rightarrow> (w, Inl not_found)
      | Some a \<Rightarrow>
          (let s = heap w a; w1 = record_call (Goto (page s) url) goto_r w in
           case goto_r of
             Raises e \<Rightarrow> (w1, Inl (HTTPException 500 e))
           | Returns _ \<Rightarrow>
               (let l = next_list w1;
                    h = slice_to (lists w1 (history s)) (history_index s + 1) @ [url];
                    w2 = (put w1 a (s\<lparr>history := l, history_index := int (length h) - 1\<rparr>))
                           \<lparr>lists := (lists w1)(l := h), next_list := Suc l\<rparr>;
                    w3 = record_call (Title (page s)) title_r w2
                in case title_r of
                     Raises e \<Rightarrow> (w3, Inl (HTTPException 500 e))
                   | Returns t \<Rightarrow> (w3, Inr (Navigated page_url t)))))"

definition go_back ::
  "world \<Rightarrow> ustr \<Rightarrow> unit outcome \<Rightarrow> ustr \<Rightarrow> world \<times> (http_error + response)" where
  "go_back w sid back_r page_url =
     (case get_session w sid of
        None \<Rightarrow> (w, Inl not_found)
      | Some a \<Rightarrow>
          (let s = heap w a in
           if history_index s > 0 then
             (let w1 = put w a (s\<lparr>history_index := history_index s - 1\<rparr>);
                  w2 = record_call (GoBack (page s)) back_r w1
              in case back_r of
                   Raises e \<Rightarrow> (w2, Inl (Unhandled e))
                 | Returns _ \<Rightarrow> (w2, Inr (Success page_url)))
           else (w, Inr NoHistory)))"

definition go_forward ::
  "world \<Rightarrow> ustr \<Rightarrow> unit outcome \<Rightarrow> ustr \<Rightarrow> world \<times> (http_error + response)" where
  "go_forward w sid forward_r page_url =
     (case get_session w sid of
        None \<Rightarrow> (w, Inl not_found)
      | Some a \<Rightarrow>
          (let s = heap w a in
           if history_index s < int (length (lists w (history s))) - 1 then
             (let w1 = put w a (s\<lparr>history_index := history_index s + 1\<rparr>);
                  w2 = record_call (GoForward (page s)) forward_r w1
              in case forward_r of
                   Raises e \<Rightarrow> (w2, Inl (Unhandled e))
                 | Returns _ \<Rightarrow> (w2, Inr (Success page_url)))
           else (w, Inr NoForwardHistory)))"

definition refresh ::
  "world \<Rightarrow> ustr \<Rightarrow> unit outcome \<Rightarrow> ustr \<Rightarrow> world \<times> (http_error + response)" where
  "refresh w sid reload_r page_url =
     (case get_session w sid of
        None \<Rightarrow> (w, Inl not_found)
      | Some a \<Rightarrow>
          (let w1 = record_call (Reload (page (heap w a))) reload_r w in
           case reload_r of
             Raises e \<Rightarrow> (w1, Inl (Unhandled e))
           | Returns _ \<Rightarrow> (w1, Inr (Refreshed page_url))))"

text \<open>
  \<open>KeyPressRequest\<close>: \<open>modifiers\<close> is an optional dict from names to booleans;
  \<open>modifiers.get(name)\<close> is true when the name is present with value \<open>True\<close>.
\<close>

record key_press_request =
  key :: ustr
  modifiers :: "(ustr \<rightharpoonup> bool) option"

definition chord :: "key_press_request \<Rightarrow> ustr" where
  "chord request =
     (let mods = (case modifiers request of None \<Rightarrow> Map.empty | Some m \<Rightarrow> m);
          keys = (if mods (lit ''ctrl'') = Some True then [lit ''Control''] else [])
               @ (if mods (lit ''alt'') = Some True then [lit ''Alt''] else [])
               @ (if mods (lit ''shift'') = Some True then [lit ''Shift''] else [])
               @ (if mods (lit ''meta'') = Some True then [lit ''Meta''] else [])
               @ [key request]
      in join (lit ''+'') keys)"

definition keypress ::
  "world \<Rightarrow> ustr \<Rightarrow> key_press_request \<Rightarrow> unit outcome \<Rightarrow> world \<times> (http_error + response)" where
  "keypress w sid request press_r =
     (case get_session w sid of
        None \<Rightarrow> (w, Inl not_found)
      | Some a \<Rightarrow>
          (let w1 = record_call (KeyboardPress (page (heap w a)) (chord request)) press_r w in
           case press_r of
             Raises e \<Rightarrow> (w1, Inl (Unhandled e))
           | Returns _ \<Rightarrow> (w1, Inr Pressed)))"


section \<open>browser.py: the WebSocket endpoint\<close>

text \<open>
  An inbound frame is a JSON object; \<open>data.get(name)\<close> is the field of that name, \<open>None\<close>
  when the frame has no such key. A frame may carry keys the handler never reads.
\<close>

record ws_frame =
  f_type :: "ustr option"
  f_url :: "ustr option"
  f_x :: "int option"
  f_y :: "int option"
  f_button :: "ustr option"
  f_text :: "ustr option"
  f_key :: "ustr option"
  f_modifiers :: "(ustr \<rightharpoonup> bool) option"
  f_deltaX :: "int option"
  f_deltaY :: "int option"

text \<open>What the handler does on the connection.\<close>

datatype ws_out =
    Accept
  | Close nat ustr
  | SendScreenshot ustr ustr ustr
  | SendError ustr

text \<open>\<open>data.get(name, default)\<close>.\<close>

fun get_default :: "'a option \<Rightarrow> 'a \<Rightarrow> 'a" where
  "get_default None d = d"
| "get_default (Some v) d = v"

text \<open>
  One round of the consumer loop, after \<open>receive_json\<close> has returned \<open>data\<close>. \<open>a\<close> is the
  reference to the session dict that the handler looked up when the connection opened,
  \<open>r\<close> the outcome of the page call the round awaits. The last component tells whether
  the loop goes on (\<open>Returns\<close>) or an exception leaves it.
\<close>

definition ws_command ::
  "world \<Rightarrow> nat \<Rightarrow> ws_frame \<Rightarrow> unit outcome \<Rightarrow> world \<times> ws_out list \<times> unit outcome" where
  "ws_command w a data r =
     (let s = heap w a; p = page s; event_type = f_type data in
      if event_type = Some (lit ''navigate'') then
        (case f_url data of
           None \<Rightarrow> (w, [], Returns ())
         | Some url \<Rightarrow>
             if url = [] then (w, [], Returns ())
             else
               (let w1 = record_call (Goto p url) r w in
                case r of
                  Raises e \<Rightarrow> (w1, [SendError e], Returns ())
                | Returns _ \<Rightarrow>
                    (let l = history s; h = lists w1 l @ [url] in
                     ((put w1 a (s\<lparr>history_index := int (length h) - 1\<rparr>))
                        \<lparr>lists := (lists w1)(l := h)\<rparr>,
                      [], Returns ()))))
      else if event_type = Some (lit ''click'') then
        (record_call
           (MouseClick p (get_default (f_x data) 0) (get_default (f_y data) 0)
              (get_default (f_button data) (lit ''left''))) r w, [], r)
      else if event_type = Some (lit ''type'') then
        (record_call (KeyboardType p (get_default (f_text data) [])) r w, [], r)
      else if event_type = Some (lit ''keypress'') then
        (record_call (KeyboardPress p (get_default (f_key data) [])) r w, [], r)
      else if event_type = Some (lit ''scroll'') then
        (record_call
           (MouseWheel p (get_default (f_deltaX data) 0) (get_default (f_deltaY data) 0)) r w,
         [], r)
      else if event_type = Some (lit ''back'') then
        (if history_index s > 0 then
           (record_call (GoBack p) r (put w a (s\<lparr>history_index := history_index s - 1\<rparr>)), [], r)
         else (w, [], Returns ()))
      else if event_type = Some (lit ''forward'') then
        (if history_index s < int (length (lists w (history s))) - 1 then
           (record_call (GoForward p) r (put w a (s\<lparr>history_index := history_index s + 1\<rparr>)),
            [], r)
         else (w, [], Returns ()))
      else if event_type = Some (lit ''refresh'') then
        (record_call (Reload p) r w, [], r)
      else (w, [], Returns ()))"

text \<open>
  One round of \<open>stream_screenshots\<close>: \<open>shot_r\<close> is the outcome of the screenshot, already
  base64-encoded. The boolean tells whether the producer loop goes on.
\<close>

definition stream_step ::
  "world \<Rightarrow> nat \<Rightarrow> ustr outcome \<Rightarrow> ustr \<Rightarrow> ustr outcome \<Rightarrow> world \<times> ws_out list \<times> bool" where
  "stream_step w a shot_r page_url title_r =
     (let p = page (heap w a); w1 = record_call (Screenshot p 40) shot_r w in
      case shot_r of
        Raises e \<Rightarrow> (w1, [], False)
      | Returns b64 \<Rightarrow>
          (let w2 = record_call (Title p) title_r w1 in
           case title_r of
             Raises e \<Rightarrow> (w2, [], False)
           | Returns t \<Rightarrow>
               (w2, [SendScreenshot (lit ''data:image/jpeg;base64,'' @ b64) page_url t], True)))"

text \<open>
  The producer task and the consumer loop take turns at their awaits. A run of one
  connection is given by the order of these turns: an inbound frame with the outcome of
  its page call, a producer round, or the client disconnecting.
\<close>

datatype ws_event =
    Frame ws_frame "unit outcome"
  | Tick "ustr outcome" ustr "ustr outcome"
  | Disconnect

text \<open>
  \<open>producing\<close>: the producer task has not left its loop. On \<open>Disconnect\<close>, and when an
  exception leaves the consumer loop, the \<open>finally\<close> block cancels the producer and the
  handler ends.
\<close>

fun ws_loop :: "world \<Rightarrow> nat \<Rightarrow> bool \<Rightarrow> ws_event list \<Rightarrow> world \<times> ws_out list" where
  "ws_loop w a producing [] = (w, [])"
| "ws_loop w a producing (Disconnect # evs) = (w, [])"
| "ws_loop w a producing (Tick shot_r page_url title_r # evs) =
     (if producing then
        (case stream_step w a shot_r page_url title_r of
           (w1, out, go_on) \<Rightarrow>
             (case ws_loop w1 a go_on evs of (w2, out2) \<Rightarrow> (w2, out @ out2)))
      else ws_loop w a producing evs)"
| "ws_loop w a producing (Frame data r # evs) =
     (case ws_command w a data r of
        (w1, out, Raises e) \<Rightarrow> (w1, out)
      | (w1, out, Returns _) \<Rightarrow>
          (case ws_loop w1 a producing evs of (w2, out2) \<Rightarrow> (w2, out @ out2)))"

definition websocket_endpoint :: "world \<Rightarrow> ustr \<Rightarrow> ws_event list \<Rightarrow> world \<times> ws_out list" where
  "websocket_endpoint w sid evs =
     (case get_session w sid of
        None \<Rightarrow> (w, [Accept, Close 4004 (lit ''Session not found'')])
      | Some a \<Rightarrow> (case ws_loop w a True evs of (w1, out) \<Rightarrow> (w1, Accept # out)))"


section \<open>Sequences of requests\<close>

text \<open>
  A request to the running service, with the outcomes of the engine calls it awaits.
  \<open>WsCommand a\<close> and \<open>WsProducer a\<close> are rounds of a WebSocket handler that holds the
  reference \<open>a\<close>.
\<close>

datatype request =
    CreateSession "nat outcome" "nat outcome" ustr "nat outcome" "nat outcome" nat
  | CloseSession ustr "unit outcome"
  | GetStatus ustr ustr "ustr outcome"
  | Navigate ustr ustr "unit outcome" ustr "ustr outcome"
  | Back ustr "unit outcome" ustr
  | Forward ustr "unit outcome" ustr
  | Refresh ustr "unit outcome" ustr
  | Keypress ustr key_press_request "unit outcome"
  | WsCommand nat ws_frame "unit outcome"
  | WsProducer nat "ustr outcome" ustr "ustr outcome"

fun apply_request :: "world \<Rightarrow> request \<Rightarrow> world" where
  "apply_request w (CreateSession start_r launch_r uuid context_r page_r now) =
     fst (create_session w start_r launch_r uuid context_r page_r now)"
| "apply_request w (CloseSession sid close_r) = fst (close_session w sid close_r)"
| "apply_request w (GetStatus sid page_url title_r) =
     fst (get_session_status w sid page_url title_r)"
| "apply_request w (Navigate sid url goto_r page_url title_r) =
     fst (navigate w sid url goto_r page_url title_r)"
| "apply_request w (Back sid back_r page_url) = fst (go_back w sid back_r page_url)"
| "apply_request w (Forward sid forward_r page_url) = fst (go_forward w sid forward_r page_url)"
| "apply_request w (Refresh sid reload_r page_url) = fst (refresh w sid reload_r page_url)"
| "apply_request w (Keypress sid request press_r) = fst (keypress w sid request press_r)"
| "apply_request w (WsCommand a data r) = fst (ws_command w a data r)"
| "apply_request w (WsProducer a shot_r page_url title_r) =
     fst (stream_step w a shot_r page_url title_r)"

definition run :: "world \<Rightarrow> request list \<Rightarrow> world" where
  "run w reqs = foldl apply_request w reqs"

text \<open>
  The invariant of the tracker, for the session dict \<open>a\<close>; \<open>heap_inv\<close> says that it
  holds for every session dict made so far, that the history of each is a list made so
  far, and that the store refers to session dicts made so far.
\<close>

definition session_inv :: "world \<Rightarrow> nat \<Rightarrow> bool" where
  "session_inv w a \<longleftrightarrow>
     - 1 \<le> history_index (heap w a)
     \<and> history_index (heap w a) \<le> int (length (history_list w a)) - 1"

definition heap_inv :: "world \<Rightarrow> bool" where
  "heap_inv w \<longleftrightarrow>
     (\<forall>a. a < next_ref w \<longrightarrow> history (heap w a) < next_list w \<and> session_inv w a)
     \<and> (\<forall>sid a. get_session w sid = Some a \<longrightarrow> a < next_ref w)"


section \<open>Tasks that interleave at their awaits\<close>

text \<open>
  A coroutine runs without interruption from one \<open>await\<close> on the engine to the next;
  while it waits, the event loop runs other tasks. \<open>initialize\<close> cut at its awaits:
  \<open>AtCheck\<close> is line 24, the test; \<open>AwaitStart\<close> waits for \<open>async_playwright().start()\<close>;
  \<open>AwaitLaunch p\<close> waits for \<open>chromium.launch\<close> on the driver \<open>p\<close>. A step takes the
  outcome the engine delivers (unused by the test).
\<close>

datatype init_pc = AtCheck | AwaitStart | AwaitLaunch nat | Finished "unit outcome"

fun init_step :: "world \<Rightarrow> init_pc \<Rightarrow> nat outcome \<Rightarrow> world \<times> init_pc" where
  "init_step w AtCheck r =
     (case playwright w of
        Some _ \<Rightarrow> (w, Finished (Returns ()))
      | None \<Rightarrow> (w, AwaitStart))"
| "init_step w AwaitStart r =
     (let w1 = record_call PlaywrightStart r w in
      case r of
        Raises e \<Rightarrow> (w1, Finished (Raises e))
      | Returns p \<Rightarrow> (w1\<lparr>playwright := Some p\<rparr>, AwaitLaunch p))"
| "init_step w (AwaitLaunch p) r =
     (let w1 = record_call (ChromiumLaunch p) r w in
      case r of
        Raises e \<Rightarrow> (w1, Finished (Raises e))
      | Returns b \<Rightarrow> (w1\<lparr>browser := Some b\<rparr>, Finished (Returns ())))"
| "init_step w (Finished x) r = (w, Finished x)"

text \<open>
  Several calls of \<open>initialize\<close> in flight: the schedule names, turn by turn, the task
  that runs and the outcome the engine delivers to it.
\<close>

fun run_tasks :: "world \<Rightarrow> init_pc list \<Rightarrow> (nat \<times> nat outcome) list \<Rightarrow> world \<times> init_pc list" where
  "run_tasks w pcs [] = (w, pcs)"
| "run_tasks w pcs ((i, r) # schedule) =
     (if i < length pcs then
        (case init_step w (pcs ! i) r of (w1, pc) \<Rightarrow> run_tasks w1 (pcs[i := pc]) schedule)
      else run_tasks w pcs schedule)"

fun is_launch :: "call \<times> bool \<Rightarrow> bool" where
  "is_launch (ChromiumLaunch p, ok) = ok"
| "is_launch _ = False"

definition launches :: "world \<Rightarrow> nat" where
  "launches w = length (filter is_launch (calls w))"

text \<open>
  Three schedules for two calls of \<open>initialize\<close> on a fresh manager. \<open>racing\<close>: both
  run the test before the driver of either has started. \<open>in_turn\<close>: the second call
  begins after the first has finished. \<open>early\<close>: the second call runs its test while
  the first waits for the launch.
\<close>

definition racing :: "(nat \<times> nat outcome) list" where
  "racing =
     [(0, Returns 0), (1, Returns 0), (0, Returns 1), (1, Returns 2),
      (0, Returns 3), (1, Returns 4)]"

definition in_turn :: "(nat \<times> nat outcome) list" where
  "in_turn = [(0, Returns 0), (0, Returns 1), (0, Returns 3), (1, Returns 0)]"

definition early :: "(nat \<times> nat outcome) list" where
  "early = [(0, Returns 0), (0, Returns 1), (1, Returns 0)]"

text \<open>
  \<open>close_session\<close> cut at its await: \<open>close_session_begin\<close> is lines 64 to 66 up to the
  point where the engine has answered the \<open>close()\<close> of the context and the task has not
  been resumed yet (\<open>True\<close>: the task waits there); \<open>close_session_resume\<close> is lines 67
  and 68.
\<close>

definition close_session_begin :: "world \<Rightarrow> ustr \<Rightarrow> unit outcome \<Rightarrow> world \<times> bool" where
  "close_session_begin w sid close_r =
     (case map_of (sessions w) sid of
        None \<Rightarrow> (w, False)
      | Some a \<Rightarrow> (record_call (ContextClose (ctx (heap w a))) close_r w, True))"

definition close_session_resume :: "world \<Rightarrow> ustr \<Rightarrow> unit outcome \<Rightarrow> world \<times> unit outcome" where
  "close_session_resume w sid close_r =
     (case close_r of
        Raises e \<Rightarrow> (w, Raises e)
      | Returns _ \<Rightarrow>
          (case map_of (sessions w) sid of
             None \<Rightarrow> (w, Raises (lit ''KeyError''))
           | Some _ \<Rightarrow> (w\<lparr>sessions := AList.delete sid (sessions w)\<rparr>, Returns ())))"

definition context_closed :: "world \<Rightarrow> nat \<Rightarrow> bool" where
  "context_closed w c \<longleftrightarrow> (ContextClose c, True) \<in> set (calls w)"

text \<open>
  The calls a shutdown is expected to add: one successful \<open>close()\<close> for the context of
  each stored session, in store order, and then the two calls that stop the engine, each
  made only when its handle is set.
\<close>

definition close_calls :: "world \<Rightarrow> (ustr \<times> nat) list \<Rightarrow> (call \<times> bool) list" where
  "close_calls w al = map (\<lambda>(k, a). (ContextClose (ctx (heap w a)), True)) al"

definition shutdown_calls :: "world \<Rightarrow> (call \<times> bool) list" where
  "shutdown_calls w =
     (case browser w of None \<Rightarrow> [] | Some b \<Rightarrow> [(BrowserClose b, True)])
     @ (case playwright w of None \<Rightarrow> [] | Some p \<Rightarrow> [(PlaywrightStop p, True)])"


section \<open>Example states\<close>

text \<open>
  A session \<open>s1\<close> that visited A, B and C and went back twice: its history is
  \<open>[A, B, C]\<close> and its index is 0.
\<close>

definition abc_requests :: "request list" where
  "abc_requests =
     [CreateSession (Returns 1) (Returns 2) (lit ''s1'') (Returns 3) (Returns 4) 0,
      Navigate (lit ''s1'') (lit ''A'') (Returns ()) (lit ''A'') (Returns (lit ''a'')),
      Navigate (lit ''s1'') (lit ''B'') (Returns ()) (lit ''B'') (Returns (lit ''b'')),
      Navigate (lit ''s1'') (lit ''C'') (Returns ()) (lit ''C'') (Returns (lit ''c'')),
      Back (lit ''s1'') (Returns ()) (lit ''B''),
      Back (lit ''s1'') (Returns ()) (lit ''A'')]"

definition abc_world :: world where
  "abc_world = run empty_world abc_requests"



text \<open>
  Two open sessions \<open>s1\<close> and \<open>s2\<close>, and an engine that fails to close the context of
  \<open>s1\<close>.
\<close>

definition two_requests :: "request list" where
  "two_requests =
     [CreateSession (Returns 1) (Returns 2) (lit ''s1'') (Returns 3) (Returns 4) 0,
      CreateSession (Returns 1) (Returns 2) (lit ''s2'') (Returns 5) (Returns 6) 1]"

definition two_world :: world where
  "two_world = run empty_world two_requests"

definition fail_first :: "ustr \<Rightarrow> unit outcome" where
  "fail_first k = (if k = lit ''s1'' then Raises (lit ''closed pipe'') else Returns ())"

definition empty_frame :: ws_frame where
  "empty_frame =
     \<lparr>f_type = None, f_url = None, f_x = None, f_y = None, f_button = None,
      f_text = None, f_key = None, f_modifiers = None, f_deltaX = None, f_deltaY = None\<rparr>"

text \<open>
  Four environments of the suggestions endpoint: the service cannot be reached; the
  service answers with prose that has no bracket in it; the service answers with an
  opening bracket and no valid JSON after it; the service answers with the JSON array of
  the string \<open>a\<close> and the number 1, which is the text \<open>mixed_answer\<close>. In the first three
  \<open>json.loads\<close> is only ever called on the text \<open>[a, b\<close>, which it rejects. In all four
  the validation refuses every element that is not a string.
\<close>

definition env_unreachable :: llm_env where
  "env_unreachable =
     \<lparr>importable = True, chat = (\<lambda>_. Raises (lit ''connection refused'')),
      json_loads = (\<lambda>_. Raises (lit ''JSONDecodeError'')), coerce_str = (\<lambda>_. None)\<rparr>"

definition env_prose :: llm_env where
  "env_prose =
     \<lparr>importable = True, chat = (\<lambda>_. Returns (lit ''no ideas'')),
      json_loads = (\<lambda>_. Raises (lit ''JSONDecodeError'')), coerce_str = (\<lambda>_. None)\<rparr>"

definition mixed_answer :: ustr where
  "mixed_answer = [91, 34, 97, 34, 44, 32, 49, 93]"

definition env_mixed :: llm_env where
  "env_mixed =
     \<lparr>importable = True, chat = (\<lambda>_. Returns mixed_answer),
      json_loads = (\<lambda>s. if s = mixed_answer then Returns (JArr [JStr (lit ''a''), JNum 1])
                        else Raises (lit ''JSONDecodeError'')),
      coerce_str = (\<lambda>_. None)\<rparr>"

definition env_broken :: llm_env where
  "env_broken =
     \<lparr>importable = True, chat = (\<lambda>_. Returns (lit ''[a, b'')),
      json_loads = (\<lambda>_. Raises (lit ''JSONDecodeError'')), coerce_str = (\<lambda>_. None)\<rparr>"


section \<open>Basic facts\<close>

lemma heap_record_call [simp]: "heap (record_call c r w) = heap w"
  by (simp add: record_call_def)

lemma sessions_record_call [simp]: "sessions (record_call c r w) = sessions w"
  by (simp add: record_call_def)

lemma lists_record_call [simp]: "lists (record_call c r w) = lists w"
  by (simp add: record_call_def)

lemma next_ref_record_call [simp]: "next_ref (record_call c r w) = next_ref w"
  by (simp add: record_call_def)

lemma next_list_record_call [simp]: "next_list (record_call c r w) = next_list w"
  by (simp add: record_call_def)

lemma heap_put [simp]: "heap (put w a s) = (heap w)(a := s)"
  by (simp add: put_def)

lemma sessions_put [simp]: "sessions (put w a s) = sessions w"
  by (simp add: put_def)

lemma lists_put [simp]: "lists (put w a s) = lists w"
  by (simp add: put_def)

lemma next_ref_put [simp]: "next_ref (put w a s) = next_ref w"
  by (simp add: put_def)

lemma next_list_put [simp]: "next_list (put w a s) = next_list w"
  by (simp add: put_def)

lemma get_session_record_call [simp]: "get_session (record_call c r w) = get_session w"
  by (simp add: get_session_def fun_eq_iff)

lemma get_session_put [simp]: "get_session (put w a s) = get_session w"
  by (simp add: get_session_def fun_eq_iff)


section \<open>Facts about the example states\<close>

lemmas run_simps = run_def empty_world_def create_session_def initialize_def record_call_def
  put_def navigate_def go_back_def get_session_def slice_to_def slice_bound_def lit_def Let_def

lemma abc_sessions: "sessions abc_world = [(lit ''s1'', 0)]"
  by (simp add: abc_world_def abc_requests_def run_simps)

lemma abc_heap:
  "heap abc_world 0 = \<lparr>ctx = 3, page = 4, created_at = 0, history = 3, history_index = 0\<rparr>"
  by (simp add: abc_world_def abc_requests_def run_simps)

lemma abc_lists: "lists abc_world 3 = [lit ''A'', lit ''B'', lit ''C'']"
  by (simp add: abc_world_def abc_requests_def run_simps)

lemma abc_history: "history_list abc_world 0 = [lit ''A'', lit ''B'', lit ''C'']"
  by (simp add: history_list_def abc_heap abc_lists)

lemma abc_next_list: "next_list abc_world = 4"
  by (simp add: abc_world_def abc_requests_def run_simps)




lemma two_sessions: "sessions two_world = [(lit ''s1'', 0), (lit ''s2'', 1)]"
  by (simp add: two_world_def two_requests_def run_simps)

lemma two_handles: "browser two_world = Some 2 \<and> playwright two_world = Some 1"
  by (simp add: two_world_def two_requests_def run_simps)

lemma two_contexts: "ctx (heap two_world 0) = 3 \<and> ctx (heap two_world (Suc 0)) = 5"
  by (simp add: two_world_def two_requests_def run_simps)

lemma two_calls:
  "calls two_world =
     [(PlaywrightStart, True), (ChromiumLaunch 1, True), (NewContext 2, True),
      (NewPage 3, True), (NewContext 2, True), (NewPage 5, True)]"
  by (simp add: two_world_def two_requests_def run_simps)


section \<open>Navigation history\<close>

text \<open>
  Claim C1. A successful navigation to \<open>url\<close>, over the REST endpoint or as a WebSocket
  \<open>navigate\<close> frame, truncates the history to \<open>historyIndex + 1\<close> entries, appends \<open>url\<close>
  and moves the index to the new last entry: from \<open>[A, B, C]\<close> at index 0, navigating to D
  gives \<open>[A, D]\<close> at index 1.

  The REST endpoint does this. The WebSocket handler appends without truncating: on the
  same session the frame \<open>{type: navigate, url: D}\<close> gives \<open>[A, B, C, D]\<close> at index 3.
\<close>

theorem ws_navigate_keeps_forward_entries:
  "(let w = fst (navigate abc_world (lit ''s1'') (lit ''D'') (Returns ()) (lit ''D'')
                  (Returns (lit ''d'')))
    in (history_list w 0, history_index (heap w 0))) = ([lit ''A'', lit ''D''], 1)
   \<and>
   (let w = fst (ws_command abc_world 0
                  (empty_frame\<lparr>f_type := Some (lit ''navigate''), f_url := Some (lit ''D'')\<rparr>)
                  (Returns ()))
    in (history_list w 0, history_index (heap w 0)))
     = ([lit ''A'', lit ''B'', lit ''C'', lit ''D''], 3)"
  by (simp add: navigate_def ws_command_def get_session_def abc_sessions abc_heap abc_lists
      abc_next_list history_list_def Let_def put_def record_call_def slice_to_def
      slice_bound_def empty_frame_def lit_def)


section \<open>The history index stays in range\<close>

lemma heap_inv_record_call [simp]: "heap_inv (record_call c r w) = heap_inv w"
  by (simp add: heap_inv_def session_inv_def history_list_def)



























section \<open>Outcomes of the REST navigation\<close>

text \<open>
  Claim C5 says that a REST navigation whose page load succeeds is recorded and answered
  with the resulting URL and the page title. The title is read by a second awaited call
  inside the same \<open>try\<close> block: when that call raises after a successful load, the
  navigation is already recorded and the answer is the 500 error.
\<close>

theorem navigate_title_failure:
  "snd (navigate abc_world (lit ''s1'') (lit ''D'') (Returns ()) (lit ''D'')
          (Raises (lit ''crashed'')))
     = Inl (HTTPException 500 (lit ''crashed''))
   \<and> history_list (fst (navigate abc_world (lit ''s1'') (lit ''D'') (Returns ()) (lit ''D'')
                          (Raises (lit ''crashed'')))) 0
     = [lit ''A'', lit ''D'']"
  by (simp add: navigate_def get_session_def abc_sessions abc_heap abc_lists abc_next_list
      history_list_def put_def record_call_def Let_def slice_to_def slice_bound_def lit_def)

text \<open>
  Claim C5, amended. For a REST navigation on a stored session: when the page load raises
  (a failure or the timeout), the answer is the 500 error carrying the reason, and the
  state is the one before with only the failed call noted, so history and index are
  unchanged; when the load succeeds, the history is truncated to \<open>historyIndex + 1\<close>
  entries, the URL is appended and the index is the new last position; the answer then
  holds the resulting URL and the title when the title call returns, and is the 500
  error with its reason when the title call raises.
\<close>

theorem navigate_outcomes:
  "get_session w sid = Some a \<Longrightarrow>
     (\<forall>e. navigate w sid url (Raises e) page_url title_r
            = (record_call (Goto (page (heap w a)) url) (Raises e :: unit outcome) w,
               Inl (HTTPException 500 e)))
   \<and> history_list (fst (navigate w sid url (Returns ()) page_url title_r)) a
        = slice_to (history_list w a) (history_index (heap w a) + 1) @ [url]
   \<and> history_index (heap (fst (navigate w sid url (Returns ()) page_url title_r)) a)
        = int (length (history_list (fst (navigate w sid url (Returns ()) page_url title_r)) a))
          - 1
   \<and> (\<forall>t. snd (navigate w sid url (Returns ()) page_url (Returns t))
            = Inr (Navigated page_url t))
   \<and> (\<forall>e. snd (navigate w sid url (Returns ()) page_url (Raises e))
            = Inl (HTTPException 500 e))"
  by (simp add: navigate_def history_list_def Let_def split: outcome.splits)

theorem navigate_outcomes_witness:
  "get_session abc_world (lit ''s1'') = Some 0
   \<and> snd (navigate abc_world (lit ''s1'') (lit ''D'') (Raises (lit ''timeout'')) (lit ''A'')
            (Returns (lit ''a'')))
       = Inl (HTTPException 500 (lit ''timeout''))
   \<and> heap (fst (navigate abc_world (lit ''s1'') (lit ''D'') (Raises (lit ''timeout'')) (lit ''A'')
                  (Returns (lit ''a''))))
       = heap abc_world
   \<and> history_list (fst (navigate abc_world (lit ''s1'') (lit ''D'') (Returns ()) (lit ''D'')
                            (Returns (lit ''d'')))) 0
       = [lit ''A'', lit ''D'']
   \<and> history_index (heap (fst (navigate abc_world (lit ''s1'') (lit ''D'') (Returns ())
                                  (lit ''D'') (Returns (lit ''d'')))) 0)
       = 1
   \<and> snd (navigate abc_world (lit ''s1'') (lit ''D'') (Returns ()) (lit ''D'')
            (Returns (lit ''d'')))
       = Inr (Navigated (lit ''D'') (lit ''d''))"
proof -
  have stored: "get_session abc_world (lit ''s1'') = Some 0"
    by (simp add: get_session_def abc_sessions)
  show ?thesis
    using stored
      navigate_outcomes [OF stored, of "lit ''D''" "lit ''A''" "Returns (lit ''a'')"]
      navigate_outcomes [OF stored, of "lit ''D''" "lit ''D''" "Returns (lit ''d'')"]
    by (simp add: abc_heap abc_history slice_to_def slice_bound_def)
qed


section \<open>Key chords\<close>

text \<open>
  Claim C4. A keypress with modifiers and a key, over REST or as a WebSocket \<open>keypress\<close>
  frame, dispatches one chord built in the order ctrl, alt, shift, meta, key: the
  modifiers \<open>{ctrl: true, shift: true}\<close> with key \<open>A\<close> dispatch \<open>Control+Shift+A\<close>.

  The REST endpoint builds and dispatches that chord. The WebSocket handler reads only
  the \<open>key\<close> field of the frame and dispatches \<open>A\<close>.
\<close>

theorem ws_keypress_drops_modifiers:
  "chord \<lparr>key = lit ''A'', modifiers = Some [lit ''ctrl'' \<mapsto> True, lit ''shift'' \<mapsto> True]\<rparr>
     = lit ''Control+Shift+A''
   \<and>
   calls (fst (keypress abc_world (lit ''s1'')
                \<lparr>key = lit ''A'',
                 modifiers = Some [lit ''ctrl'' \<mapsto> True, lit ''shift'' \<mapsto> True]\<rparr>
                (Returns ())))
     = calls abc_world @ [(KeyboardPress 4 (lit ''Control+Shift+A''), True)]
   \<and>
   calls (fst (ws_command abc_world 0
                (empty_frame\<lparr>f_type := Some (lit ''keypress''), f_key := Some (lit ''A''),
                   f_modifiers := Some [lit ''ctrl'' \<mapsto> True, lit ''shift'' \<mapsto> True]\<rparr>)
                (Returns ())))
     = calls abc_world @ [(KeyboardPress 4 (lit ''A''), True)]"
  by (simp add: chord_def keypress_def ws_command_def get_session_def abc_sessions abc_heap
      Let_def record_call_def empty_frame_def lit_def)


section \<open>Opening a WebSocket on an unknown session\<close>

text \<open>
  Claim C8. A WebSocket connection opened for a session id that is not in the store is
  closed at once with the application close code 4004 (\<open>Session not found\<close>), and the
  handler ends there: whatever frames and producer rounds would follow, no screenshot is
  taken or sent, no inbound command is processed, and the state stays as it was.
\<close>

theorem websocket_unknown_session:
  "get_session w sid = None \<Longrightarrow>
     websocket_endpoint w sid evs = (w, [Accept, Close 4004 (lit ''Session not found'')])"
  by (simp add: websocket_endpoint_def)

theorem websocket_unknown_session_witness:
  "get_session abc_world (lit ''s2'') = None \<and>
   websocket_endpoint abc_world (lit ''s2'')
     [Tick (Returns (lit ''AAAA'')) (lit ''A'') (Returns (lit ''a'')),
      Frame (empty_frame\<lparr>f_type := Some (lit ''navigate''), f_url := Some (lit ''D'')\<rparr>)
        (Returns ())]
     = (abc_world, [Accept, Close 4004 (lit ''Session not found'')])"
  using websocket_unknown_session
    [of abc_world "lit ''s2''"
      "[Tick (Returns (lit ''AAAA'')) (lit ''A'') (Returns (lit ''a'')),
        Frame (empty_frame\<lparr>f_type := Some (lit ''navigate''), f_url := Some (lit ''D'')\<rparr>)
          (Returns ())]"]
  by (simp add: get_session_def abc_sessions lit_def)

text \<open>On the stored session the same run takes a screenshot, sends it and navigates.\<close>

lemma websocket_known_session:
  "snd (websocket_endpoint abc_world (lit ''s1'')
     [Tick (Returns (lit ''AAAA'')) (lit ''A'') (Returns (lit ''a'')),
      Frame (empty_frame\<lparr>f_type := Some (lit ''navigate''), f_url := Some (lit ''D'')\<rparr>)
        (Returns ())])
     = [Accept, SendScreenshot (lit ''data:image/jpeg;base64,AAAA'') (lit ''A'') (lit ''a'')]"
  by (simp add: websocket_endpoint_def get_session_def abc_sessions abc_heap stream_step_def
      ws_command_def record_call_def put_def Let_def empty_frame_def lit_def)


section \<open>Closing a session\<close>

text \<open>The two parts of \<open>close_session\<close>, run one after the other, are \<open>close_session\<close>.\<close>

lemma close_session_cut:
  "close_session w sid close_r =
     (case close_session_begin w sid close_r of
        (w1, False) \<Rightarrow> (w1, Returns ())
      | (w1, True) \<Rightarrow> close_session_resume w1 sid close_r)"
  by (simp add: close_session_def close_session_begin_def close_session_resume_def Let_def
      split: option.splits outcome.splits)

text \<open>
  Claim C3 says that closing the context and removing the record are one step, so that
  no \<open>get\<close> returns a record whose context is already closed. \<open>close_session\<close> awaits
  the context's \<open>close()\<close> first and deletes the record after the await. When the engine
  has closed the context of \<open>s1\<close> and the task has not been resumed, \<open>get_session\<close> still
  returns the record of \<open>s1\<close>.
\<close>

theorem close_window:
  "get_session (fst (close_session_begin abc_world (lit ''s1'') (Returns ()))) (lit ''s1'')
     = Some 0
   \<and> ctx (heap (fst (close_session_begin abc_world (lit ''s1'') (Returns ()))) 0) = 3
   \<and> context_closed (fst (close_session_begin abc_world (lit ''s1'') (Returns ()))) 3
   \<and> \<not> context_closed abc_world 3"
  by (simp add: close_session_begin_def get_session_def abc_sessions abc_heap context_closed_def
      record_call_def abc_world_def abc_requests_def run_def empty_world_def create_session_def
      initialize_def put_def navigate_def go_back_def slice_to_def slice_bound_def lit_def
      Let_def)

text \<open>
  Claim C3, amended. For a stored session, once \<open>close_session\<close> has returned after the
  context closed, \<open>get_session\<close> yields nothing for that id. The close is two steps with
  the await between them: first the context is closed, then, when the task is resumed,
  the record is removed; in between, \<open>get_session\<close> still returns the record, and its
  context is already closed.
\<close>

theorem close_session_two_steps:
  "get_session w sid = Some a \<Longrightarrow>
     close_session_begin w sid (Returns ())
       = (record_call (ContextClose (ctx (heap w a))) (Returns ()) w, True)
     \<and> get_session (fst (close_session_begin w sid (Returns ()))) sid = Some a
     \<and> context_closed (fst (close_session_begin w sid (Returns ())))
          (ctx (heap (fst (close_session_begin w sid (Returns ()))) a))
     \<and> close_session_resume (fst (close_session_begin w sid (Returns ()))) sid (Returns ())
          = close_session w sid (Returns ())
     \<and> snd (close_session w sid (Returns ())) = Returns ()
     \<and> get_session (fst (close_session w sid (Returns ()))) sid = None"
  by (simp add: close_session_def close_session_begin_def close_session_resume_def
      get_session_def context_closed_def record_call_def Let_def AList.delete_conv')

theorem close_session_two_steps_witness:
  "get_session abc_world (lit ''s1'') = Some 0
   \<and> snd (close_session abc_world (lit ''s1'') (Returns ())) = Returns ()
   \<and> get_session (fst (close_session abc_world (lit ''s1'') (Returns ()))) (lit ''s1'') = None
   \<and> get_session (fst (close_session_begin abc_world (lit ''s1'') (Returns ()))) (lit ''s1'')
       = Some 0"
proof -
  have stored: "get_session abc_world (lit ''s1'') = Some 0"
    by (simp add: get_session_def abc_sessions)
  show ?thesis
    using stored close_session_two_steps [OF stored] by blast
qed


section \<open>Starting the engine\<close>

text \<open>
  The steps of one call of \<open>initialize\<close>, run one after the other, are \<open>initialize\<close>.
\<close>

lemma initialize_cut:
  "(case init_step w AtCheck start_r of
      (w1, pc1) \<Rightarrow>
        (case init_step w1 pc1 start_r of
           (w2, pc2) \<Rightarrow> init_step w2 pc2 launch_r))
     = (fst (initialize w start_r launch_r), Finished (snd (initialize w start_r launch_r)))"
  by (simp add: initialize_def Let_def split: option.splits outcome.splits)

text \<open>
  Claim C7. Concurrent first calls of the engine start collapse into a single launch
  under a lock: whatever the interleaving, the engine is launched once and every caller
  waits for that launch.

  \<open>__init__\<close> creates the lock and no method acquires it; \<open>initialize\<close> tests
  \<open>self.playwright is None\<close> and then awaits. Two calls that both run the test before
  either has assigned the driver launch the engine twice, and the browser of the first
  launch is overwritten. A call that runs the test after the driver is assigned and
  before the launch has completed returns while no launch has completed. Two calls in
  turn launch once.
\<close>

theorem concurrent_initialize_launches_twice:
  "launches (fst (run_tasks empty_world [AtCheck, AtCheck] racing)) = 2
   \<and> snd (run_tasks empty_world [AtCheck, AtCheck] racing)
       = [Finished (Returns ()), Finished (Returns ())]
   \<and> calls (fst (run_tasks empty_world [AtCheck, AtCheck] racing))
       = [(PlaywrightStart, True), (PlaywrightStart, True),
          (ChromiumLaunch 1, True), (ChromiumLaunch 2, True)]
   \<and> browser (fst (run_tasks empty_world [AtCheck, AtCheck] racing)) = Some 4
   \<and> launches (fst (run_tasks empty_world [AtCheck, AtCheck] early)) = 0
   \<and> snd (run_tasks empty_world [AtCheck, AtCheck] early)
       = [AwaitLaunch 1, Finished (Returns ())]
   \<and> browser (fst (run_tasks empty_world [AtCheck, AtCheck] early)) = None
   \<and> launches (fst (run_tasks empty_world [AtCheck, AtCheck] in_turn)) = 1
   \<and> snd (run_tasks empty_world [AtCheck, AtCheck] in_turn)
       = [Finished (Returns ()), Finished (Returns ())]"
  by (simp add: racing_def in_turn_def early_def empty_world_def record_call_def launches_def
      Let_def)


section \<open>Shutdown\<close>

lemma close_session_head:
  "sessions w = (k, a) # al \<Longrightarrow> k \<notin> fst ` set al \<Longrightarrow>
     close_session w k (Returns ())
       = (w\<lparr>sessions := al, calls := calls w @ [(ContextClose (ctx (heap w a)), True)]\<rparr>, Returns ())"
  by (simp add: close_session_def record_call_def Let_def)

lemma close_session_head_raises:
  "sessions w = (k, a) # al \<Longrightarrow>
     close_session w k (Raises e)
       = (w\<lparr>calls := calls w @ [(ContextClose (ctx (heap w a)), False)]\<rparr>, Raises e)"
  by (simp add: close_session_def record_call_def Let_def)

lemma cleanup_loop_ok:
  "sessions w = al \<Longrightarrow> distinct (map fst al) \<Longrightarrow> \<forall>k \<in> set (map fst al). close_r k = Returns () \<Longrightarrow>
     cleanup_loop w close_r (map fst al @ ks)
       = cleanup_loop (w\<lparr>sessions := [], calls := calls w @ close_calls w al\<rparr>) close_r ks"
proof (induction al arbitrary: w)
  case Nil
  then have "w\<lparr>sessions := [], calls := calls w @ close_calls w []\<rparr> = w"
    by (cases w) (simp add: close_calls_def)
  then show ?case by simp
next
  case (Cons p al)
  obtain k a where p: "p = (k, a)" by (cases p)
  let ?w1 = "w\<lparr>sessions := al, calls := calls w @ [(ContextClose (ctx (heap w a)), True)]\<rparr>"
  have fresh: "k \<notin> fst ` set al" using Cons.prems(2) p by simp
  have step: "close_session w k (close_r k) = (?w1, Returns ())"
    using close_session_head [of w k a al] Cons.prems p fresh by simp
  have ih: "cleanup_loop ?w1 close_r (map fst al @ ks)
      = cleanup_loop (?w1\<lparr>sessions := [], calls := calls ?w1 @ close_calls ?w1 al\<rparr>) close_r ks"
    using Cons.prems p by (intro Cons.IH) simp_all
  show ?case
    using step ih by (simp add: p close_calls_def)
qed

lemma cleanup_loop_raises:
  "sessions w = (k, a) # post \<Longrightarrow> close_r k = Raises e \<Longrightarrow>
     cleanup_loop w close_r (k # ks)
       = (w\<lparr>calls := calls w @ [(ContextClose (ctx (heap w a)), False)]\<rparr>, Raises e)"
  by (simp add: close_session_head_raises)

lemma cleanup_loop_stops:
  assumes "sessions w = pre @ (k, a) # post"
    and "distinct (map fst (sessions w))"
    and "\<forall>k' \<in> set (map fst pre). close_r k' = Returns ()"
    and "close_r k = Raises e"
  shows "cleanup_loop w close_r (map fst (sessions w))
       = (w\<lparr>sessions := (k, a) # post,
            calls := calls w @ close_calls w pre @ [(ContextClose (ctx (heap w a)), False)]\<rparr>,
          Raises e)"
  using assms
proof (induction pre arbitrary: w)
  case Nil
  have "w\<lparr>sessions := (k, a) # post\<rparr> = w"
    using Nil.prems(1) by (cases w) simp
  then show ?case
    using Nil.prems cleanup_loop_raises [of w k a post close_r e "map fst post"]
    by (simp add: close_calls_def)
next
  case (Cons p pre)
  obtain k0 a0 where p: "p = (k0, a0)" by (cases p)
  let ?w1 = "w\<lparr>sessions := pre @ (k, a) # post,
                calls := calls w @ [(ContextClose (ctx (heap w a0)), True)]\<rparr>"
  have fresh: "k0 \<notin> fst ` set (pre @ (k, a) # post)"
    using Cons.prems(1,2) p by auto
  have step: "close_session w k0 (close_r k0) = (?w1, Returns ())"
    using close_session_head [of w k0 a0 "pre @ (k, a) # post"] Cons.prems p fresh by simp
  have ih: "cleanup_loop ?w1 close_r (map fst (sessions ?w1))
      = (?w1\<lparr>sessions := (k, a) # post,
              calls := calls ?w1 @ close_calls ?w1 pre @ [(ContextClose (ctx (heap ?w1 a)), False)]\<rparr>,
         Raises e)"
    using Cons.prems p by (intro Cons.IH) simp_all
  show ?case
    using step ih Cons.prems(1) by (simp add: p close_calls_def)
qed

lemma cleanup_loop_all:
  assumes "distinct (map fst (sessions w))"
    and "\<forall>k \<in> set (map fst (sessions w)). close_r k = Returns ()"
  shows "cleanup_loop w close_r (map fst (sessions w))
       = (w\<lparr>sessions := [], calls := calls w @ close_calls w (sessions w)\<rparr>, Returns ())"
  using cleanup_loop_ok [of w "sessions w" close_r "[]"] assms by simp

lemma engine_shutdown_keeps:
  "sessions (fst (engine_shutdown w bc st)) = sessions w
   \<and> browser (fst (engine_shutdown w bc st)) = browser w
   \<and> playwright (fst (engine_shutdown w bc st)) = playwright w
   \<and> heap (fst (engine_shutdown w bc st)) = heap w
   \<and> set (calls w) \<subseteq> set (calls (fst (engine_shutdown w bc st)))"
  by (auto simp add: engine_shutdown_def record_call_def split: option.splits outcome.splits)

lemma engine_shutdown_returns:
  "engine_shutdown w (Returns ()) (Returns ())
     = (w\<lparr>calls := calls w @ shutdown_calls w\<rparr>, Returns ())"
  by (cases w) (simp add: engine_shutdown_def record_call_def shutdown_calls_def
      split: option.splits)

lemma cleanup_empty_store:
  "sessions w = [] \<Longrightarrow> cleanup w close_r bc st = engine_shutdown w bc st"
  by (simp add: cleanup_def)

text \<open>
  Claim C9 says that the shutdown goes on through the remaining sessions when closing one
  of them fails, and that invoking it twice is safe. \<open>cleanup\<close> has no handler around
  \<open>close_session\<close>: with the sessions \<open>s1\<close> and \<open>s2\<close> open and the close of the context
  of \<open>s1\<close> raising, the exception leaves \<open>cleanup\<close>; \<open>s2\<close> is still in the store, its
  context was never closed, and the engine was not stopped. And \<open>cleanup\<close> never sets
  the two handles back to \<open>None\<close>: after a shutdown that went through, a second one
  calls \<open>close()\<close> on the same browser again, and raises when the engine refuses that.
\<close>

theorem cleanup_stops_at_failure:
  "snd (cleanup two_world fail_first (Returns ()) (Returns ())) = Raises (lit ''closed pipe'')
   \<and> get_session (fst (cleanup two_world fail_first (Returns ()) (Returns ()))) (lit ''s2'') = Some 1
   \<and> ctx (heap two_world 1) = 5
   \<and> \<not> context_closed (fst (cleanup two_world fail_first (Returns ()) (Returns ()))) 5
   \<and> calls (fst (cleanup two_world fail_first (Returns ()) (Returns ())))
       = calls two_world @ [(ContextClose 3, False)]
   \<and> snd (cleanup two_world (\<lambda>_. Returns ()) (Returns ()) (Returns ())) = Returns ()
   \<and> snd (cleanup (fst (cleanup two_world (\<lambda>_. Returns ()) (Returns ()) (Returns ())))
            (\<lambda>_. Returns ()) (Raises (lit ''browser has been closed'')) (Returns ()))
       = Raises (lit ''browser has been closed'')"
  by (simp add: cleanup_def engine_shutdown_def close_session_def fail_first_def record_call_def
      get_session_def context_closed_def two_sessions two_handles two_contexts two_calls
      Let_def lit_def)

text \<open>
  Claim C9, amended. The shutdown closes the sessions in store order. When every context
  closes, every session's context has been closed and the store is empty, so that no
  session can be retrieved, and then the engine is shut down by \<open>engine_shutdown\<close>; the
  two handles stay set. A second shutdown after one that went through closes no context
  and calls \<open>close()\<close> on the browser and \<open>stop()\<close> on the driver again: it returns when
  both calls return, and it raises the engine's exception when the repeated \<open>close()\<close>
  or the repeated \<open>stop()\<close> raises. When closing the context of one session raises, the
  shutdown stops there with that exception: the sessions before it are closed and
  removed, that session and the later ones stay in the store, and the engine is not shut
  down.
\<close>

theorem cleanup_behaviour:
  assumes "distinct (map fst (sessions w))"
  shows
   "((\<forall>k \<in> set (map fst (sessions w)). close_r k = Returns ()) \<longrightarrow>
       cleanup w close_r browser_close_r stop_r
         = engine_shutdown (w\<lparr>sessions := [], calls := calls w @ close_calls w (sessions w)\<rparr>)
             browser_close_r stop_r
       \<and> cleanup w close_r (Returns ()) (Returns ())
         = (w\<lparr>sessions := [],
              calls := calls w @ close_calls w (sessions w) @ shutdown_calls w\<rparr>, Returns ())
       \<and> (\<forall>sid. get_session (fst (cleanup w close_r browser_close_r stop_r)) sid = None)
       \<and> (\<forall>(k, a) \<in> set (sessions w).
             context_closed (fst (cleanup w close_r browser_close_r stop_r)) (ctx (heap w a)))
       \<and> browser (fst (cleanup w close_r browser_close_r stop_r)) = browser w
       \<and> playwright (fst (cleanup w close_r browser_close_r stop_r)) = playwright w
       \<and> cleanup (fst (cleanup w close_r (Returns ()) (Returns ()))) close_r2
            browser_close_r2 stop_r2
           = engine_shutdown (fst (cleanup w close_r (Returns ()) (Returns ())))
               browser_close_r2 stop_r2
       \<and> cleanup (fst (cleanup w close_r (Returns ()) (Returns ()))) close_r2
            (Returns ()) (Returns ())
           = (w\<lparr>sessions := [],
                calls := calls w @ close_calls w (sessions w) @ shutdown_calls w
                         @ shutdown_calls w\<rparr>,
              Returns ())
       \<and> (\<forall>b e. browser w = Some b \<longrightarrow>
             cleanup (fst (cleanup w close_r (Returns ()) (Returns ()))) close_r2
               (Raises e) stop_r2
               = (record_call (BrowserClose b) (Raises e :: unit outcome)
                    (fst (cleanup w close_r (Returns ()) (Returns ()))),
                  Raises e))
       \<and> (\<forall>p e. playwright w = Some p \<longrightarrow>
             snd (cleanup (fst (cleanup w close_r (Returns ()) (Returns ()))) close_r2
                    (Returns ()) (Raises e))
               = Raises e))
    \<and> (\<forall>pre k a post e.
          sessions w = pre @ (k, a) # post
          \<and> (\<forall>k' \<in> set (map fst pre). close_r k' = Returns ()) \<and> close_r k = Raises e
          \<longrightarrow> cleanup w close_r browser_close_r stop_r
              = (w\<lparr>sessions := (k, a) # post,
                   calls := calls w @ close_calls w pre
                            @ [(ContextClose (ctx (heap w a)), False)]\<rparr>,
                 Raises e))"
  (is "(?ok \<longrightarrow> ?gen \<and> ?first \<and> ?none \<and> ?closed \<and> ?br \<and> ?pw \<and> ?again \<and> ?second
          \<and> ?refused \<and> ?refused_stop) \<and> ?stops")
proof -
  let ?w1 = "w\<lparr>sessions := [], calls := calls w @ close_calls w (sessions w)\<rparr>"
  let ?w2 = "w\<lparr>sessions := [],
              calls := calls w @ close_calls w (sessions w) @ shutdown_calls w\<rparr>"
  have all_ok: "?gen \<and> ?first \<and> ?none \<and> ?closed \<and> ?br \<and> ?pw \<and> ?again \<and> ?second
      \<and> ?refused \<and> ?refused_stop" if ok: ?ok
  proof -
    have loop: "cleanup_loop w close_r (map fst (sessions w)) = (?w1, Returns ())"
      using cleanup_loop_all [OF assms ok] .
    have genr: "cleanup w close_r bc st = engine_shutdown ?w1 bc st" for bc st
      by (simp add: cleanup_def loop)
    have gen: ?gen
      by (rule genr)
    have first: ?first
      by (simp add: genr engine_shutdown_returns shutdown_calls_def)
    note keeps = engine_shutdown_keeps [of ?w1 browser_close_r stop_r]
    have none: ?none
      using keeps by (simp add: gen get_session_def)
    have closed: ?closed
    proof (clarify)
      fix k a
      assume "(k, a) \<in> set (sessions w)"
      then have "(ContextClose (ctx (heap w a)), True) \<in> set (calls ?w1)"
        by (force simp add: close_calls_def)
      then show "context_closed (fst (cleanup w close_r browser_close_r stop_r)) (ctx (heap w a))"
        using keeps by (auto simp add: gen context_closed_def)
    qed
    have br: ?br and pw: ?pw
      using keeps by (simp_all add: gen)
    have again: ?again
      unfolding first fst_conv by (simp add: cleanup_empty_store)
    have second: ?second
      unfolding first fst_conv
      by (simp add: cleanup_empty_store engine_shutdown_returns shutdown_calls_def)
    have refused: ?refused
      unfolding first fst_conv
      by (simp add: cleanup_empty_store engine_shutdown_def)
    have refused_stop: ?refused_stop
      unfolding first fst_conv
      by (simp add: cleanup_empty_store engine_shutdown_def record_call_def
          split: option.splits)
    show ?thesis
      using gen first none closed br pw again second refused refused_stop by (intro conjI)
  qed
  have stops: ?stops
  proof (intro allI impI)
    fix pre k a post e
    assume "sessions w = pre @ (k, a) # post
          \<and> (\<forall>k' \<in> set (map fst pre). close_r k' = Returns ()) \<and> close_r k = Raises e"
    then show "cleanup w close_r browser_close_r stop_r
              = (w\<lparr>sessions := (k, a) # post,
                   calls := calls w @ close_calls w pre
                            @ [(ContextClose (ctx (heap w a)), False)]\<rparr>,
                 Raises e)"
      using cleanup_loop_stops [of w pre k a post close_r e] assms
      by (simp add: cleanup_def)
  qed
  show ?thesis
    using all_ok stops by blast
qed

theorem cleanup_behaviour_witness:
  "distinct (map fst (sessions two_world))
   \<and> sessions (fst (cleanup two_world (\<lambda>_. Returns ()) (Returns ()) (Returns ()))) = []
   \<and> calls (fst (cleanup two_world (\<lambda>_. Returns ()) (Returns ()) (Returns ())))
       = calls two_world @ [(ContextClose 3, True), (ContextClose 5, True),
                            (BrowserClose 2, True), (PlaywrightStop 1, True)]
   \<and> get_session (fst (cleanup two_world (\<lambda>_. Returns ()) (Returns ()) (Returns ())))
         (lit ''s2'') = None
   \<and> context_closed (fst (cleanup two_world (\<lambda>_. Returns ()) (Returns ()) (Returns ()))) 5
   \<and> browser two_world = Some 2
   \<and> playwright two_world = Some 1
   \<and> snd (cleanup (fst (cleanup two_world (\<lambda>_. Returns ()) (Returns ()) (Returns ())))
            (\<lambda>_. Returns ()) (Returns ()) (Returns ())) = Returns ()
   \<and> snd (cleanup (fst (cleanup two_world (\<lambda>_. Returns ()) (Returns ()) (Returns ())))
            (\<lambda>_. Returns ()) (Raises (lit ''browser has been closed'')) (Returns ()))
       = Raises (lit ''browser has been closed'')
   \<and> snd (cleanup (fst (cleanup two_world (\<lambda>_. Returns ()) (Returns ()) (Returns ())))
            (\<lambda>_. Returns ()) (Returns ()) (Raises (lit ''driver has stopped'')))
       = Raises (lit ''driver has stopped'')
   \<and> sessions two_world = [] @ (lit ''s1'', 0) # [(lit ''s2'', 1)]
   \<and> fail_first (lit ''s1'') = Raises (lit ''closed pipe'')
   \<and> snd (cleanup two_world fail_first (Returns ()) (Returns ())) = Raises (lit ''closed pipe'')
   \<and> sessions (fst (cleanup two_world fail_first (Returns ()) (Returns ())))
       = [(lit ''s1'', 0), (lit ''s2'', 1)]
   \<and> calls (fst (cleanup two_world fail_first (Returns ()) (Returns ())))
       = calls two_world @ [(ContextClose 3, False)]"
proof -
  let ?all = "\<lambda>_ :: ustr. Returns () :: unit outcome"
  let ?w1 = "fst (cleanup two_world ?all (Returns ()) (Returns ()))"
  have d: "distinct (map fst (sessions two_world))"
    by (simp add: two_sessions lit_def)
  have ok: "\<forall>k \<in> set (map fst (sessions two_world)). ?all k = Returns ()"
    by simp
  have split: "sessions two_world = [] @ (lit ''s1'', 0) # [(lit ''s2'', 1)]"
    by (simp add: two_sessions)
  have f: "fail_first (lit ''s1'') = Raises (lit ''closed pipe'')"
    by (simp add: fail_first_def)
  note good = cleanup_behaviour [OF d, of ?all "Returns ()" "Returns ()" ?all,
      THEN conjunct1, THEN mp, OF ok]
  note bad = cleanup_behaviour [OF d, of fail_first "Returns ()" "Returns ()",
      THEN conjunct2, rule_format, of "[]" "lit ''s1''" 0 "[(lit ''s2'', 1)]" "lit ''closed pipe''"]
  note rest1 = good [THEN conjunct2]
  note rest2 = rest1 [THEN conjunct2]
  note rest3 = rest2 [THEN conjunct2]
  note rest7 = rest3 [THEN conjunct2, THEN conjunct2, THEN conjunct2, THEN conjunct2]
  note rest8 = rest7 [THEN conjunct2]
  have br: "browser two_world = Some 2" and pw: "playwright two_world = Some 1"
    using two_handles by simp_all
  have first: "cleanup two_world ?all (Returns ()) (Returns ())
       = (two_world\<lparr>sessions := [],
            calls := calls two_world @ [(ContextClose 3, True), (ContextClose 5, True),
                            (BrowserClose 2, True), (PlaywrightStop 1, True)]\<rparr>, Returns ())"
    using rest1 [THEN conjunct1]
    by (simp add: close_calls_def shutdown_calls_def two_sessions two_handles two_contexts)
  have none: "get_session ?w1 (lit ''s2'') = None"
    using rest2 [THEN conjunct1] by simp
  have closed: "context_closed ?w1 5"
    using rest3 [THEN conjunct1] by (simp add: two_sessions two_contexts)
  have second: "snd (cleanup ?w1 ?all (Returns ()) (Returns ())) = Returns ()"
    using rest7 [THEN conjunct1] by (simp only: snd_conv)
  have refused: "snd (cleanup ?w1 ?all (Raises (lit ''browser has been closed'')) (Returns ()))
      = Raises (lit ''browser has been closed'')"
    using rest8 [THEN conjunct1, rule_format, OF br,
        of "lit ''browser has been closed''" "Returns ()"]
    by (simp only: snd_conv)
  have refused_stop: "snd (cleanup ?w1 ?all (Returns ()) (Raises (lit ''driver has stopped'')))
      = Raises (lit ''driver has stopped'')"
    using rest8 [THEN conjunct2, rule_format, OF pw, of "lit ''driver has stopped''"] .
  have stop: "cleanup two_world fail_first (Returns ()) (Returns ())
       = (two_world\<lparr>sessions := [(lit ''s1'', 0), (lit ''s2'', 1)],
            calls := calls two_world @ [(ContextClose 3, False)]\<rparr>, Raises (lit ''closed pipe''))"
    using bad split f by (simp add: close_calls_def two_contexts)
  show ?thesis
    using d split f none closed second refused refused_stop two_handles
    by (simp add: first stop)
qed


section \<open>Suggestions\<close>

text \<open>
  Claim C10. For a query that is empty, or whose length after stripping white space is
  below 2, the suggestions endpoint answers with an empty list and the query itself; it
  sends nothing to the suggestion service and does not use the template list.
\<close>

theorem suggestions_trivial_query:
  "q = [] \<or> length (strip q) < 2 \<Longrightarrow>
     get_search_suggestions env q limit = (\<lparr>suggestions = [], query = q\<rparr>, [])"
  by (simp add: get_search_suggestions_def)

theorem suggestions_trivial_query_witness:
  "(lit '' a '' = [] \<or> length (strip (lit '' a '')) < 2) \<and>
   get_search_suggestions env_prose (lit '' a '') 5
     = (\<lparr>suggestions = [], query = lit '' a ''\<rparr>, [])"
  using suggestions_trivial_query [of "lit '' a ''" env_prose 5]
  by (simp add: lit_def strip_def isspace_def)

lemma slice_to_nonneg: "0 \<le> k \<Longrightarrow> slice_to xs k = take (nat k) xs"
  by (simp add: slice_to_def slice_bound_def min_def)

lemma slice_to_map: "slice_to (map f xs) k = map f (slice_to xs k)"
  by (simp add: slice_to_def take_map)

lemma validate_elems_strs: "validate_elems env (map JStr xs) = Some xs"
  by (induction xs) simp_all

lemma validate_query_only:
  "validate_list env (JArr (slice_to [JStr q] limit)) = Some (slice_to [q] limit)"
  using slice_to_map [of JStr "[q]" limit] validate_elems_strs [of env "slice_to [q] limit"]
  by simp

lemma parse_no_brackets:
  "\<not> startswith c 91 \<Longrightarrow>
   \<not> (0 \<le> str_find c 91 \<and> str_find c 91 < str_rfind c 93 + 1) \<Longrightarrow>
     parse_content env q c = Returns (JArr [JStr q])"
  by (auto simp add: parse_content_def Let_def)

lemma docker_nontrivial: "lit ''docker'' \<noteq> [] \<and> 2 \<le> length (strip (lit ''docker''))"
  by (simp add: lit_def strip_def isspace_def)

text \<open>
  Claim C6 says that the template list is returned whenever the service is unavailable
  or its output cannot be parsed as a list of strings. An answer without any bracket is
  not parsed at all: \<open>get_ai_suggestions\<close> then takes \<open>[query]\<close> as the suggestions. For
  the query \<open>docker\<close> and the answer \<open>no ideas\<close> the endpoint returns \<open>[docker]\<close>.
\<close>

theorem suggestions_prose_answer:
  "chat env_prose (prompt (lit ''docker'') 5) = Returns (lit ''no ideas'')
   \<and> suggestions (fst (get_search_suggestions env_prose (lit ''docker'') 5)) = [lit ''docker'']
   \<and> suggestions (fst (get_search_suggestions env_prose (lit ''docker'') 5))
        \<noteq> take 5 (fallback (lit ''docker''))"
  by (simp add: get_search_suggestions_def get_ai_suggestions_def env_prose_def parse_content_def
      lit_def strip_def isspace_def str_rfind_def slice_to_def slice_bound_def fallback_def)

text \<open>
  Claim C6, amended. For a query that is not trivial and a limit \<open>n\<close>: when the client
  library cannot be imported, or the service call raises, or \<open>json.loads\<close> raises on the
  bracketed part of the answer, or the parsed value cannot be sliced, or the slice
  \<open>[:n]\<close> of the parsed value is not accepted as a list of strings, the endpoint returns
  \<open>fallback[:n]\<close>, which for \<open>0 \<le> n\<close> is the first \<open>n\<close> entries of the template
  list. The slice is taken before the validation: when the slice \<open>[:n]\<close> of the parsed
  value is accepted as a list of strings, the endpoint returns that slice, also when the
  parsed value has later elements that are not strings. When the stripped answer neither
  starts with \<open>[\<close> nor has a \<open>[\<close> before its last \<open>]\<close>, the endpoint returns
  \<open>[q][:n]\<close>.
\<close>

theorem suggestions_fallback:
  assumes "q \<noteq> []" and "2 \<le> length (strip q)"
  shows
   "((\<not> importable env
      \<or> (\<exists>e. chat env (prompt q limit) = Raises e)
      \<or> (\<exists>m e. chat env (prompt q limit) = Returns m
             \<and> parse_content env q (strip m) = Raises e)
      \<or> (\<exists>m js e. chat env (prompt q limit) = Returns m
             \<and> parse_content env q (strip m) = Returns js
             \<and> json_slice_to js limit = Raises e)
      \<or> (\<exists>m js js'. chat env (prompt q limit) = Returns m
             \<and> parse_content env q (strip m) = Returns js
             \<and> json_slice_to js limit = Returns js' \<and> validate_list env js' = None))
     \<longrightarrow> fst (get_search_suggestions env q limit)
           = \<lparr>suggestions = slice_to (fallback q) limit, query = q\<rparr>)
    \<and> (\<forall>m js js' ss. importable env \<and> chat env (prompt q limit) = Returns m
            \<and> parse_content env q (strip m) = Returns js
            \<and> json_slice_to js limit = Returns js' \<and> validate_list env js' = Some ss
          \<longrightarrow> fst (get_search_suggestions env q limit) = \<lparr>suggestions = ss, query = q\<rparr>)
    \<and> (\<forall>m. importable env \<and> chat env (prompt q limit) = Returns m
            \<and> \<not> startswith (strip m) 91
            \<and> \<not> (0 \<le> str_find (strip m) 91
                 \<and> str_find (strip m) 91 < str_rfind (strip m) 93 + 1)
          \<longrightarrow> fst (get_search_suggestions env q limit)
                = \<lparr>suggestions = slice_to [q] limit, query = q\<rparr>)
    \<and> (0 \<le> limit \<longrightarrow> slice_to (fallback q) limit = take (nat limit) (fallback q))"
proof (intro conjI impI allI)
  assume "\<not> importable env
      \<or> (\<exists>e. chat env (prompt q limit) = Raises e)
      \<or> (\<exists>m e. chat env (prompt q limit) = Returns m
             \<and> parse_content env q (strip m) = Raises e)
      \<or> (\<exists>m js e. chat env (prompt q limit) = Returns m
             \<and> parse_content env q (strip m) = Returns js
             \<and> json_slice_to js limit = Raises e)
      \<or> (\<exists>m js js'. chat env (prompt q limit) = Returns m
             \<and> parse_content env q (strip m) = Returns js
             \<and> json_slice_to js limit = Returns js' \<and> validate_list env js' = None)"
  then show "fst (get_search_suggestions env q limit)
           = \<lparr>suggestions = slice_to (fallback q) limit, query = q\<rparr>"
    using assms
    by (auto simp add: get_search_suggestions_def get_ai_suggestions_def)
next
  fix m js js' ss
  assume "importable env \<and> chat env (prompt q limit) = Returns m
            \<and> parse_content env q (strip m) = Returns js
            \<and> json_slice_to js limit = Returns js' \<and> validate_list env js' = Some ss"
  then show "fst (get_search_suggestions env q limit) = \<lparr>suggestions = ss, query = q\<rparr>"
    using assms
    by (simp add: get_search_suggestions_def get_ai_suggestions_def)
next
  fix m
  assume "importable env \<and> chat env (prompt q limit) = Returns m
            \<and> \<not> startswith (strip m) 91
            \<and> \<not> (0 \<le> str_find (strip m) 91
                 \<and> str_find (strip m) 91 < str_rfind (strip m) 93 + 1)"
  then show "fst (get_search_suggestions env q limit)
                = \<lparr>suggestions = slice_to [q] limit, query = q\<rparr>"
    using assms
    by (simp add: get_search_suggestions_def get_ai_suggestions_def parse_no_brackets
        validate_query_only del: validate_list.simps)
next
  assume "0 \<le> limit"
  then show "slice_to (fallback q) limit = take (nat limit) (fallback q)"
    by (rule slice_to_nonneg)
qed

theorem suggestions_fallback_witness:
  "lit ''docker'' \<noteq> [] \<and> 2 \<le> length (strip (lit ''docker''))
   \<and> chat env_unreachable (prompt (lit ''docker'') 5) = Raises (lit ''connection refused'')
   \<and> fst (get_search_suggestions env_unreachable (lit ''docker'') 5)
       = \<lparr>suggestions = [lit ''docker tutorial'', lit ''docker example'',
            lit ''docker documentation'', lit ''how to docker'', lit ''docker guide''],
          query = lit ''docker''\<rparr>
   \<and> fst (get_search_suggestions env_unreachable (lit ''docker'') 2)
       = \<lparr>suggestions = [lit ''docker tutorial'', lit ''docker example''],
          query = lit ''docker''\<rparr>
   \<and> chat env_broken (prompt (lit ''docker'') 5) = Returns (lit ''[a, b'')
   \<and> parse_content env_broken (lit ''docker'') (strip (lit ''[a, b''))
       = Raises (lit ''JSONDecodeError'')
   \<and> fst (get_search_suggestions env_broken (lit ''docker'') 5)
       = \<lparr>suggestions = [lit ''docker tutorial'', lit ''docker example'',
            lit ''docker documentation'', lit ''how to docker'', lit ''docker guide''],
          query = lit ''docker''\<rparr>
   \<and> chat env_prose (prompt (lit ''docker'') 5) = Returns (lit ''no ideas'')
   \<and> fst (get_search_suggestions env_prose (lit ''docker'') 5)
       = \<lparr>suggestions = [lit ''docker''], query = lit ''docker''\<rparr>
   \<and> chat env_mixed (prompt (lit ''docker'') 1) = Returns mixed_answer
   \<and> parse_content env_mixed (lit ''docker'') (strip mixed_answer)
       = Returns (JArr [JStr (lit ''a''), JNum 1])
   \<and> fst (get_search_suggestions env_mixed (lit ''docker'') 1)
       = \<lparr>suggestions = [lit ''a''], query = lit ''docker''\<rparr>
   \<and> fst (get_search_suggestions env_mixed (lit ''docker'') 5)
       = \<lparr>suggestions = [lit ''docker tutorial'', lit ''docker example'',
            lit ''docker documentation'', lit ''how to docker'', lit ''docker guide''],
          query = lit ''docker''\<rparr>"
proof -
  have nt: "lit ''docker'' \<noteq> []" "2 \<le> length (strip (lit ''docker''))"
    using docker_nontrivial by simp_all
  have st_broken: "strip (lit ''[a, b'') = lit ''[a, b''"
    by (simp add: lit_def strip_def isspace_def)
  have st_prose: "strip (lit ''no ideas'') = lit ''no ideas''"
    by (simp add: lit_def strip_def isspace_def)
  have fb: "fallback (lit ''docker'')
      = [lit ''docker tutorial'', lit ''docker example'', lit ''docker documentation'',
         lit ''how to docker'', lit ''docker guide'']"
    by (simp add: fallback_def lit_def)
  have down: "chat env_unreachable (prompt (lit ''docker'') k)
      = Raises (lit ''connection refused'')" for k
    by (simp add: env_unreachable_def)
  have broken: "chat env_broken (prompt (lit ''docker'') 5) = Returns (lit ''[a, b'')"
    by (simp add: env_broken_def)
  have broken_parse: "parse_content env_broken (lit ''docker'') (strip (lit ''[a, b''))
      = Raises (lit ''JSONDecodeError'')"
    unfolding st_broken by (simp add: parse_content_def env_broken_def lit_def)
  have prose: "importable env_prose
      \<and> chat env_prose (prompt (lit ''docker'') 5) = Returns (lit ''no ideas'')"
    by (simp add: env_prose_def)
  have prose_plain: "\<not> startswith (strip (lit ''no ideas'')) 91
      \<and> \<not> (0 \<le> str_find (strip (lit ''no ideas'')) 91
           \<and> str_find (strip (lit ''no ideas'')) 91
               < str_rfind (strip (lit ''no ideas'')) 93 + 1)"
    unfolding st_prose by (simp add: lit_def str_rfind_def)
  have st_mixed: "strip mixed_answer = mixed_answer"
    by (simp add: mixed_answer_def strip_def isspace_def)
  have mixed: "importable env_mixed \<and> chat env_mixed (prompt (lit ''docker'') k) = Returns mixed_answer"
    for k
    by (simp add: env_mixed_def)
  have mixed_parse: "parse_content env_mixed (lit ''docker'') (strip mixed_answer)
      = Returns (JArr [JStr (lit ''a''), JNum 1])"
    unfolding st_mixed by (simp add: parse_content_def env_mixed_def mixed_answer_def)
  have mixed_one: "json_slice_to (JArr [JStr (lit ''a''), JNum 1]) 1 = Returns (JArr [JStr (lit ''a'')])
      \<and> validate_list env_mixed (JArr [JStr (lit ''a'')]) = Some [lit ''a'']"
    by (simp add: slice_to_def slice_bound_def)
  have mixed_five: "json_slice_to (JArr [JStr (lit ''a''), JNum 1]) 5
        = Returns (JArr [JStr (lit ''a''), JNum 1])
      \<and> validate_list env_mixed (JArr [JStr (lit ''a''), JNum 1]) = None"
    by (simp add: slice_to_def slice_bound_def env_mixed_def)
  have one: "fst (get_search_suggestions env_mixed (lit ''docker'') 1)
       = \<lparr>suggestions = [lit ''a''], query = lit ''docker''\<rparr>"
    using suggestions_fallback [OF nt, of env_mixed 1, THEN conjunct2, THEN conjunct1]
      mixed [of 1] mixed_parse mixed_one
    by blast
  have five: "fst (get_search_suggestions env_mixed (lit ''docker'') 5)
       = \<lparr>suggestions = slice_to (fallback (lit ''docker'')) 5, query = lit ''docker''\<rparr>"
    using suggestions_fallback [OF nt, of env_mixed 5, THEN conjunct1]
      mixed [of 5] mixed_parse mixed_five
    by blast
  have rest: "lit ''docker'' \<noteq> [] \<and> 2 \<le> length (strip (lit ''docker''))
   \<and> chat env_unreachable (prompt (lit ''docker'') 5) = Raises (lit ''connection refused'')
   \<and> fst (get_search_suggestions env_unreachable (lit ''docker'') 5)
       = \<lparr>suggestions = [lit ''docker tutorial'', lit ''docker example'',
            lit ''docker documentation'', lit ''how to docker'', lit ''docker guide''],
          query = lit ''docker''\<rparr>
   \<and> fst (get_search_suggestions env_unreachable (lit ''docker'') 2)
       = \<lparr>suggestions = [lit ''docker tutorial'', lit ''docker example''],
          query = lit ''docker''\<rparr>
   \<and> chat env_broken (prompt (lit ''docker'') 5) = Returns (lit ''[a, b'')
   \<and> parse_content env_broken (lit ''docker'') (strip (lit ''[a, b''))
       = Raises (lit ''JSONDecodeError'')
   \<and> fst (get_search_suggestions env_broken (lit ''docker'') 5)
       = \<lparr>suggestions = [lit ''docker tutorial'', lit ''docker example'',
            lit ''docker documentation'', lit ''how to docker'', lit ''docker guide''],
          query = lit ''docker''\<rparr>
   \<and> chat env_prose (prompt (lit ''docker'') 5) = Returns (lit ''no ideas'')
   \<and> fst (get_search_suggestions env_prose (lit ''docker'') 5)
       = \<lparr>suggestions = [lit ''docker''], query = lit ''docker''\<rparr>"
    using suggestions_fallback [OF nt, of env_unreachable 5]
      suggestions_fallback [OF nt, of env_unreachable 2]
      suggestions_fallback [OF nt, of env_broken 5]
      suggestions_fallback [OF nt, of env_prose 5]
      nt down broken broken_parse prose prose_plain
    by (simp add: fb slice_to_def slice_bound_def)
  have five': "fst (get_search_suggestions env_mixed (lit ''docker'') 5)
       = \<lparr>suggestions = [lit ''docker tutorial'', lit ''docker example'',
            lit ''docker documentation'', lit ''how to docker'', lit ''docker guide''],
          query = lit ''docker''\<rparr>"
    using five by (simp add: fb slice_to_def slice_bound_def)
  show ?thesis
    using rest mixed [of 1] mixed_parse one five' by blast
qed

end
